theory Spec2Isabelle
  imports Complex_Main
begin

section \<open>Values, failures and checked memory accesses\<close>

text \<open>
  The Lanczos driver of \<^verbatim>\<open>lanczos.cu\<close> works on \<^verbatim>\<open>double\<close> and
  \<^verbatim>\<open>cuDoubleComplex\<close> values held in thrust vectors and raw device buffers.
  A finite double is a \<^typ>\<open>real\<close> and a finite \<^verbatim>\<open>cuDoubleComplex\<close> a
  \<^typ>\<open>complex\<close>, with exact arithmetic (rounding is not modelled). A division by zero
  raises nothing in the program: it yields an infinity or a NaN, and the program goes on
  with it. A value that is not a number is \<open>None\<close>, and every arithmetic operation that
  meets one gives one. Infinities arise only from \<^verbatim>\<open>1./x\<close>, whose result goes to the scratch
  vector alone; there \<open>None\<close> stands for any value that is not finite. A complex value
  with a NaN in one part is \<open>None\<close> as a whole: every such value of the driver has the NaN
  in its real part, the only part the driver ever extracts.

  What ends a call of the model without a result:
  \<^item> \<open>OutOfBounds\<close>: an access outside a vector or a buffer, which is undefined behaviour in
    the program (\<^verbatim>\<open>operator[]\<close> of a thrust vector and the raw pointers are
    unchecked);
  \<^item> \<open>AllocFailed\<close>: a request for memory that is refused. For the vectors \<open>d_a\<close> and
    \<open>d_b\<close> the program prints a message and calls \<^verbatim>\<open>exit(-1)\<close>; for the other
    thrust vectors the exception has no handler; for the raw buffers the status is printed
    or ignored and the unset pointer is written through right after;
  \<^item> \<open>NotAnInt\<close>: an argument that is not a value of \<^verbatim>\<open>int\<close>.

  The sizes \<^verbatim>\<open>dim\<close>, \<^verbatim>\<open>max_Iter\<close> and \<^verbatim>\<open>num_Eig\<close> are the values of
  \<^verbatim>\<open>int\<close> that are not negative, hence natural numbers below \<open>2^31\<close>; calls with a
  negative size are not modelled. The sums and products of the program on the sizes are
  computed in \<^verbatim>\<open>int\<close>, where they wrap around.
\<close>

datatype error = OutOfBounds | AllocFailed | NotAnInt

definition ebind :: "error + 'a \<Rightarrow> ('a \<Rightarrow> error + 'b) \<Rightarrow> error + 'b" where
  "ebind m f = (case m of Inl e \<Rightarrow> Inl e | Inr x \<Rightarrow> f x)"

text \<open>\<^verbatim>\<open>xs[i] = v\<close> and \<^verbatim>\<open>xs[i]\<close> on a vector of \<open>length xs\<close> elements.\<close>

definition store :: "'a list \<Rightarrow> nat \<Rightarrow> 'a \<Rightarrow> error + 'a list" where
  "store xs i v = (if i < length xs then Inr (xs[i := v]) else Inl OutOfBounds)"

definition fetch :: "'a list \<Rightarrow> nat \<Rightarrow> error + 'a" where
  "fetch xs i = (if i < length xs then Inr (xs ! i) else Inl OutOfBounds)"

text \<open>\<^verbatim>\<open>cudaMemcpy(&xs[k], src, n*sizeof(T), ...)\<close> with \<open>n = length src\<close>.\<close>

definition memcpy_at :: "'a list \<Rightarrow> nat \<Rightarrow> 'a list \<Rightarrow> error + 'a list" where
  "memcpy_at xs k src =
     (if k + length src \<le> length xs
      then Inr (take k xs @ src @ drop (k + length src) xs)
      else Inl OutOfBounds)"

text \<open>
  \<^verbatim>\<open>v.resize(n)\<close> of a thrust vector of numbers: the first \<open>min n (length v)\<close> elements
  are kept, new elements are value-initialised (zero).
\<close>

definition vec_resize :: "'a::zero option list \<Rightarrow> nat \<Rightarrow> 'a option list" where
  "vec_resize xs n = take n xs @ replicate (n - length xs) (Some 0)"

text \<open>Arithmetic in \<^verbatim>\<open>int\<close> (32 bits, two's complement): the exact result, wrapped.\<close>

definition is_int :: "nat \<Rightarrow> bool" where
  "is_int n = (n < 2 ^ 31)"

definition wrap32 :: "int \<Rightarrow> int" where
  "wrap32 x = (x + 2 ^ 31) mod 2 ^ 32 - 2 ^ 31"

text \<open>An \<^verbatim>\<open>int\<close> used as an index or offset into a vector: a negative one is outside.\<close>

definition offset32 :: "int \<Rightarrow> error + nat" where
  "offset32 x = (if x < 0 then Inl OutOfBounds else Inr (nat x))"

text \<open>
  Memory. Whether a request is granted is up to the device and the host; the model lets the
  answer depend on the number of bytes asked for. \<open>claim grants width n\<close> is a request for
  \<open>n\<close> elements of \<open>width\<close> bytes each, where \<open>n\<close> is an \<^verbatim>\<open>int\<close> that the program
  converts to \<^verbatim>\<open>size_t\<close>: a negative \<open>n\<close> becomes a count of about \<open>2^64\<close>, which
  is refused; no element needs no memory. The result is the number of elements obtained.
\<close>

record memory =
  device_grants :: "nat \<Rightarrow> bool"
  host_grants :: "nat \<Rightarrow> bool"

definition claim :: "(nat \<Rightarrow> bool) \<Rightarrow> nat \<Rightarrow> int \<Rightarrow> error + nat" where
  "claim grants width n =
     (if n < 0 then Inl AllocFailed
      else if n = 0 \<or> grants (nat n * width) then Inr (nat n)
      else Inl AllocFailed)"

section \<open>The collaborators: cuComplex, cuBLAS, thrust, the kernels\<close>

definition nan2 :: "('a \<Rightarrow> 'b \<Rightarrow> 'c) \<Rightarrow> 'a option \<Rightarrow> 'b option \<Rightarrow> 'c option" where
  "nan2 f x y = (case x of None \<Rightarrow> None | Some a \<Rightarrow> (case y of None \<Rightarrow> None | Some b \<Rightarrow> Some (f a b)))"

definition cuCadd :: "complex option \<Rightarrow> complex option \<Rightarrow> complex option" where
  "cuCadd x y = nan2 (+) x y"

definition cuCmul :: "complex option \<Rightarrow> complex option \<Rightarrow> complex option" where
  "cuCmul x y = nan2 (*) x y"

definition cuCsub :: "complex option \<Rightarrow> complex option \<Rightarrow> complex option" where
  "cuCsub x y = nan2 (-) x y"

text \<open>\<^verbatim>\<open>cuCdiv(x, y)\<close> scales by \<open>1/(|Re y| + |Im y|)\<close>: for \<open>y = 0\<close> every part of the
  quotient is a NaN, whatever \<open>x\<close> is.\<close>

definition cuCdiv :: "complex option \<Rightarrow> complex option \<Rightarrow> complex option" where
  "cuCdiv x y = (if y = Some 0 then None else nan2 (/) x y)"

definition cuCreal :: "complex option \<Rightarrow> real option" where
  "cuCreal z = map_option Re z"

definition make_cuDoubleComplex :: "real option \<Rightarrow> real option \<Rightarrow> complex option" where
  "make_cuDoubleComplex r i = nan2 Complex r i"

definition sqrt_double :: "real option \<Rightarrow> real option" where
  "sqrt_double x = map_option sqrt x"

text \<open>\<^verbatim>\<open>1./x\<close> on doubles: an infinity for \<open>x = 0\<close>, a NaN for a NaN; \<open>None\<close> is a result
  that is not finite.\<close>

definition recip :: "real option \<Rightarrow> real option" where
  "recip x = (case x of None \<Rightarrow> None | Some r \<Rightarrow> if r = 0 then None else Some (1 / r))"

text \<open>\<^verbatim>\<open>cublasZdotc(handle, n, x, 1, y, 1, &result)\<close>: \<open>result = \<Sum> conj(x[i]) * y[i]\<close>.\<close>

definition Zdotc :: "nat \<Rightarrow> complex option list \<Rightarrow> complex option list \<Rightarrow> complex option" where
  "Zdotc n x y =
     foldr cuCadd (map (\<lambda>(a, b). cuCmul (map_option cnj a) b) (zip (take n x) (take n y)))
       (Some 0)"

text \<open>\<^verbatim>\<open>cublasZaxpy(handle, n, &alpha, x, 1, y, 1)\<close>: \<open>y = alpha * x + y\<close>; the new \<open>y\<close>.
  The product is formed for every \<open>alpha\<close>, also for zero.\<close>

definition Zaxpy ::
  "nat \<Rightarrow> complex option \<Rightarrow> complex option list \<Rightarrow> complex option list \<Rightarrow> complex option list" where
  "Zaxpy n alpha x y = map (\<lambda>(a, b). cuCadd (cuCmul alpha a) b) (zip (take n x) (take n y))"

text \<open>\<^verbatim>\<open>cublasDznrm2(handle, n, x, 1, &result)\<close>: the Euclidean norm of \<open>x\<close>.\<close>

definition Dznrm2 :: "nat \<Rightarrow> complex option list \<Rightarrow> real option" where
  "Dznrm2 n x =
     sqrt_double (foldr (nan2 (+)) (map (map_option (\<lambda>a. (Re a)\<^sup>2 + (Im a)\<^sup>2)) (take n x))
       (Some 0))"

text \<open>The axpy into the scratch vector, whose scalar and accumulator may not be finite.\<close>

definition Zaxpy_scratch ::
  "nat \<Rightarrow> real option \<Rightarrow> complex option list \<Rightarrow> complex list option \<Rightarrow> complex list option" where
  "Zaxpy_scratch n g x y =
     (case g of None \<Rightarrow> None
      | Some r \<Rightarrow> (case those (take n x) of None \<Rightarrow> None
         | Some xv \<Rightarrow> (case y of None \<Rightarrow> None
            | Some yv \<Rightarrow> Some (map (\<lambda>(a, b). complex_of_real r * a + b) (zip xv (take n yv))))))"

text \<open>
  \<^verbatim>\<open>thrust::sort(first, last)\<close> on doubles: ascending. Where a NaN is among the keys the
  order thrust leaves is not determined by the source; the model puts the numbers first, in
  order.
\<close>

definition thrust_sort :: "real option list \<Rightarrow> real option list" where
  "thrust_sort xs = map Some (sort (List.map_filter id xs)) @ filter (\<lambda>x. x = None) xs"

text \<open>
  The kernel \<^verbatim>\<open>vecdiff(w, x, alpha, y, beta, z, n)\<close> of the older variant of the
  driver; its comment reads "Implements w = x - a*y - b*z". Thread \<open>i\<close> writes \<open>w[i]\<close>
  when \<open>i < n\<close>; the launches cover every \<open>i < n\<close>. The result is the new \<open>w\<close>.
\<close>

definition vecdiff ::
  "complex option list \<Rightarrow> complex option list \<Rightarrow> complex option \<Rightarrow> complex option list
     \<Rightarrow> complex option \<Rightarrow> complex option list \<Rightarrow> nat \<Rightarrow> complex option list" where
  "vecdiff w x alpha y beta z n =
     map (\<lambda>i. if i < n
              then cuCsub (x ! i) (cuCsub (cuCmul alpha (y ! i)) (cuCmul beta (z ! i)))
              else w ! i) [0..<length w]"

text \<open>
  The kernels \<^verbatim>\<open>zero\<close> and \<^verbatim>\<open>unitdiag\<close> are launched on the buffer
  \<^verbatim>\<open>d_H_eigen\<close> with \<^verbatim>\<open>bpg\<close> blocks of \<^verbatim>\<open>tpb\<close> threads and
  \<^verbatim>\<open>m = iter\<close>: thread \<open>i\<close> writes \<open>a[i]\<close>, then \<open>a[i + m*i]\<close>, when \<open>i < m\<close>.
  \<^verbatim>\<open>bpg = (dim + tpb - 1)/tpb\<close>; a sum that wraps gives a negative number of blocks,
  and the launch is refused, as it is for no block. \<open>kernel_extent\<close> is the
  number of elements the buffer needs for these writes.
\<close>

definition tpb :: nat where
  "tpb = 256"

definition bpg :: "nat \<Rightarrow> nat" where
  "bpg dimn = (if wrap32 (int dimn + int tpb - 1) < 0 then 0 else (dimn + tpb - 1) div tpb)"

definition kernel_extent :: "nat \<Rightarrow> nat \<Rightarrow> nat" where
  "kernel_extent dimn m =
     (let t = min m (bpg dimn * tpb) in if t = 0 then 0 else (t - 1) * (m + 1) + 1)"

section \<open>The operator\<close>

text \<open>
  The Hamiltonian reaches \<^verbatim>\<open>lanczos\<close> in coordinate format: \<^verbatim>\<open>num_Elem\<close>,
  \<^verbatim>\<open>d_H_vals\<close>, \<^verbatim>\<open>d_H_rows\<close>, \<^verbatim>\<open>d_H_cols\<close>. The driver converts it with
  \<^verbatim>\<open>cusparseXcoo2csr\<close> and applies it with \<^verbatim>\<open>cusparseZcsrmv\<close>, always with
  \<^verbatim>\<open>dim\<close> rows and \<^verbatim>\<open>dim\<close> columns (the variable is written \<open>dimn\<close> here).
  Both are library calls: the product is a parameter \<open>mv\<close> of the model, \<open>mv dimn A x\<close>
  being the vector the call leaves in its output buffer.
\<close>

record coo_matrix =
  num_Elem :: nat
  d_H_vals :: "complex list"
  d_H_rows :: "nat list"
  d_H_cols :: "nat list"

type_synonym matvec = "nat \<Rightarrow> coo_matrix \<Rightarrow> complex option list \<Rightarrow> complex option list"

text \<open>
  The product used for concrete runs: row \<open>i\<close> of the result sums \<open>vals[k] * x[cols[k]]\<close>
  over the entries \<open>k < num_Elem\<close> with \<open>rows[k] = i\<close>, for the rows \<open>i < dimn\<close>.
  It is the matrix-vector product of the matrix whose entries are listed; the concrete runs
  below that depend on it list every non-zero entry of a symmetric matrix, rows in order.
\<close>

definition coo_mv :: matvec where
  "coo_mv dimn A x =
     map (\<lambda>i. foldr cuCadd
                (map (\<lambda>(r, c, v). cuCmul (Some v) (x ! c))
                  (filter (\<lambda>(r, c, v). r = i)
                    (take (num_Elem A) (zip (d_H_rows A) (zip (d_H_cols A) (d_H_vals A))))))
                (Some 0)) [0..<dimn]"

section \<open>The tridiagonal eigensolver\<close>

text \<open>
  \<^verbatim>\<open>lanczos\<close> calls \<^verbatim>\<open>tqli(h_diag_ptr, h_offdia_ptr, iter + 1, h_H_eigen)\<close>, which
  works in place on the host copies of the diagonal and the off-diagonal; the driver reads
  back the diagonal only and ignores the returned flag and the eigenvector matrix. The source
  of \<^verbatim>\<open>tqli\<close> is not among the files (the header declares it, \<^verbatim>\<open>pythag\<close>
  and the macro \<^verbatim>\<open>SIGN\<close>), so the solver is a parameter \<open>tq\<close> of the model:
  \<open>tq d e n\<close> is the diagonal buffer after the call.
\<close>

type_synonym eigensolver = "real option list \<Rightarrow> real option list \<Rightarrow> nat \<Rightarrow> real option list"

text \<open>The macro \<^verbatim>\<open>SIGN(a,b)\<close> of the header.\<close>

definition SIGN :: "real \<Rightarrow> real \<Rightarrow> real" where
  "SIGN a b = (if b \<ge> 0 then \<bar>a\<bar> else - \<bar>a\<bar>)"

text \<open>
  Modelled from the spec: \<^verbatim>\<open>pythag\<close>, which is missing, as are the parts of
  \<^verbatim>\<open>tqli\<close> that follow. The spec (4.2) describes the implicit-shift QL iteration with deflation on a diagonal
  \<open>d[0..n-1]\<close> and an off-diagonal \<open>e[1..n-1]\<close>: scan for a negligible off-diagonal
  element to split the matrix, otherwise form the shift
  \<open>g = (d[l+1]-d[l])/(2 e[l])\<close>, \<open>r = pythag(g,1)\<close>, \<open>g = d[m]-d[l]+e[l]/(g+sign(r,g))\<close>,
  chase the bulge with plane rotations from \<open>m\<close> back to \<open>l\<close>, at most 30 times per index;
  the eigenvalues are left in \<open>d\<close>, unsorted. In exact arithmetic an off-diagonal element
  is negligible when it is zero. The rotations, which the spec only names, are those of the
  standard routine of that name.
\<close>

definition pythag :: "real \<Rightarrow> real \<Rightarrow> real" where
  "pythag a b = sqrt (a\<^sup>2 + b\<^sup>2)"

text \<open>Modelled from the spec: the start of \<^verbatim>\<open>tqli\<close>, which is missing. The off-diagonal
  \<open>e[1..n-1]\<close> is renumbered so that \<open>e[i]\<close> couples \<open>d[i]\<close> and \<open>d[i+1]\<close>.\<close>

definition renumber :: "real list \<Rightarrow> nat \<Rightarrow> real list" where
  "renumber e n =
     map (\<lambda>i. if i + 1 < n then e ! (i + 1) else if i + 1 = n then 0 else e ! i) [0..<length e]"

text \<open>Modelled from the spec: the deflation scan of \<^verbatim>\<open>tqli\<close>, which is missing. The
  least \<open>m \<ge> l\<close> with \<open>m = n - 1\<close> or \<open>e[m]\<close> negligible.\<close>

function find_m :: "real list \<Rightarrow> nat \<Rightarrow> nat \<Rightarrow> nat" where
  "find_m e n m = (if m + 1 < n then (if e ! m = 0 then m else find_m e n (m + 1)) else m)"
  by pat_completeness auto
termination
  by (relation "measure (\<lambda>(e, n, m). n - m)") auto

declare find_m.simps [simp del]

text \<open>Modelled from the spec: the rotations of \<^verbatim>\<open>tqli\<close>, which is missing. One chase of
  the bulge: \<open>k\<close> rotations are left, the next one at \<open>i = l + k - 1\<close>.\<close>

primrec sweep ::
  "nat \<Rightarrow> nat \<Rightarrow> nat \<Rightarrow> real list \<Rightarrow> real list \<Rightarrow> real \<Rightarrow> real \<Rightarrow> real \<Rightarrow> real
     \<Rightarrow> real list \<times> real list" where
  "sweep l m 0 d e g s c p = (d[l := d ! l - p], e[l := g, m := 0])"
| "sweep l m (Suc k) d e g s c p =
     (let i = l + k; f = s * e ! i; b = c * e ! i; r = pythag f g; e1 = e[i + 1 := r]
      in if r = 0 then (d[i + 1 := d ! (i + 1) - p], e1[m := 0])
         else (let s' = f / r; c' = g / r; g' = d ! (i + 1) - p;
                   r' = (d ! i - g') * s' + 2 * c' * b; p' = s' * r'
               in sweep l m k (d[i + 1 := g' + p']) e1 (c' * r' - b) s' c' p'))"

text \<open>Modelled from the spec: the iterations of \<^verbatim>\<open>tqli\<close>, which is missing, for the index
  \<open>l\<close>, at most as many as the first argument.\<close>

primrec ql_index ::
  "nat \<Rightarrow> nat \<Rightarrow> nat \<Rightarrow> real list \<Rightarrow> real list \<Rightarrow> real list \<times> real list" where
  "ql_index 0 l n d e = (d, e)"
| "ql_index (Suc fuel) l n d e =
     (let m = find_m e n l
      in if m = l then (d, e)
         else (let g0 = (d ! (l + 1) - d ! l) / (2 * e ! l); r = pythag g0 1;
                   g = d ! m - d ! l + e ! l / (g0 + SIGN r g0);
                   de = sweep l m (m - l) d e g 1 1 0
               in ql_index fuel l n (fst de) (snd de)))"

text \<open>Modelled from the spec: the body of \<^verbatim>\<open>tqli\<close>, which is missing, on numbers: every
  index in turn, with the cap of 30 iterations; the result is the diagonal.\<close>

definition ql_implicit :: "real list \<Rightarrow> real list \<Rightarrow> nat \<Rightarrow> real list" where
  "ql_implicit d e n =
     fst (foldl (\<lambda>de l. ql_index 30 l n (fst de) (snd de)) (d, renumber e n) [0..<n])"

text \<open>
  Modelled from the spec: \<^verbatim>\<open>tqli\<close>, which is missing, on the buffers of doubles. It
  reads and writes \<open>d[0..n-1]\<close> and reads \<open>e[1..n-1]\<close>. The spec does not say what it leaves
  when one of these is a NaN; the model lets all \<open>n\<close> results be NaN then.
\<close>

definition number_or_zero :: "real option \<Rightarrow> real" where
  "number_or_zero x = (case x of None \<Rightarrow> 0 | Some r \<Rightarrow> r)"

definition tqli :: eigensolver where
  "tqli d e n =
     (if list_all (\<lambda>x. x \<noteq> None) (take n d) \<and> list_all (\<lambda>x. x \<noteq> None) (take (n - 1) (drop 1 e))
      then map Some (take n (ql_implicit (map number_or_zero d) (map number_or_zero e) n))
             @ drop n d
      else map (\<lambda>x. None) (take n d) @ drop n d)"

section \<open>The Lanczos driver\<close>

text \<open>
  The variables of \<^verbatim>\<open>lanczos\<close> that live across the rounds of its loop. \<open>y_dummy\<close> is
  the device vector \<^verbatim>\<open>y\<close> ("y dummy vector") and \<open>d_ordered_ptr\<close> the index in
  \<open>d_ordered\<close> that \<^verbatim>\<open>d_ordered_ptr\<close> points to. The host copies \<^verbatim>\<open>h_diag\<close>,
  \<^verbatim>\<open>h_offdia\<close> are overwritten from the device vectors before each use and are local
  to the extraction step.
\<close>

record lanczos_state =
  d_a :: "complex option list"
  d_b :: "complex option list"
  d_lanczvec :: "complex option list"
  v0 :: "complex option list"
  v1 :: "complex option list"
  v2 :: "complex option list"
  temp :: "complex option list"
  y_dummy :: "complex list option"
  gamma :: "real option"
  d_ordered :: "real option list"
  d_ordered_ptr :: nat
  gs_Energy :: "real option"
  eigtemp :: "real option"
  iter :: nat
  max_Iter :: nat
  d_diag :: "real option list"
  d_offdia :: "real option list"

text \<open>
  Lines 92 to 340: the buffers, the start vector of ones, \<open>v1 = H v0\<close>,
  \<open>d_a[0] = <v1, v0>\<close>, \<open>v1 = v1 - d_a[0] v0\<close>, \<open>d_b[1] = sqrt(nrm2(v1))\<close>,
  \<open>y = y + (1/d_b[1]) v1\<close>, and the variables of the loop, in the order of the source.
  The requests for memory are those of
  \<^item> \<^verbatim>\<open>d_H_rowptrs\<close> (line 95, \<open>dim + 1\<close> ints, written by the conversion of line 100);
  \<^item> \<^verbatim>\<open>d_a\<close>, \<^verbatim>\<open>d_b\<close> (lines 114 and 130, \<open>max_Iter\<close> elements each);
  \<^item> \<^verbatim>\<open>d_lanczvec\<close> (line 153, \<open>dim*max_Iter\<close> elements, a product of ints);
  \<^item> \<^verbatim>\<open>v0\<close>, \<^verbatim>\<open>v1\<close>, \<^verbatim>\<open>v2\<close> (lines 167 to 169), \<^verbatim>\<open>host_v0\<close> (line 183);
  \<^item> \<^verbatim>\<open>y\<close> (line 248) and \<^verbatim>\<open>cuDouble_temp\<close> (line 269, written at line 278);
  \<^item> \<^verbatim>\<open>d_ordered\<close> (line 316), \<^verbatim>\<open>d_diag\<close>, \<^verbatim>\<open>d_offdia\<close>, \<^verbatim>\<open>h_diag\<close>,
    \<^verbatim>\<open>h_offdia\<close> (lines 327 to 333) and \<^verbatim>\<open>temp\<close> (line 337).

  The buffer \<^verbatim>\<open>double_temp\<close> (line 260) is never used: a refusal is only printed.
  \<^verbatim>\<open>v2\<close> is allocated but not initialised; every round overwrites it before reading it.
\<close>

definition lanczos_init ::
  "memory \<Rightarrow> matvec \<Rightarrow> coo_matrix \<Rightarrow> nat \<Rightarrow> nat \<Rightarrow> nat \<Rightarrow> error + lanczos_state" where
  "lanczos_init mem mv A dimn max_It num_Eig =
     (if is_int dimn \<and> is_int max_It \<and> is_int num_Eig
      then
        ebind (claim (device_grants mem) 4 (wrap32 (int dimn + 1))) (\<lambda>rowptrs.
        ebind (claim (device_grants mem) 16 (int max_It)) (\<lambda>n_a.
        ebind (claim (device_grants mem) 16 (int max_It)) (\<lambda>n_b.
        ebind (claim (device_grants mem) 16 (wrap32 (int dimn * int max_It))) (\<lambda>n_lv.
        ebind (claim (device_grants mem) 16 (int dimn)) (\<lambda>n_v.
        ebind (claim (host_grants mem) 16 (int dimn)) (\<lambda>n_host.
        let host_v0 = replicate dimn (make_cuDoubleComplex (Some 1) (Some 0));
            w = mv dimn A host_v0;
            dottemp = Zdotc dimn w host_v0
        in ebind (store (replicate n_a (Some 0)) 0 dottemp) (\<lambda>a.
           ebind (store (replicate n_b (Some 0)) 0 (make_cuDoubleComplex (Some 0) (Some 0))) (\<lambda>b.
           ebind (claim (device_grants mem) 16 (int dimn)) (\<lambda>n_y.
           ebind (claim (device_grants mem) 16 1) (\<lambda>n_temp.
           let axpytemp = cuCmul (make_cuDoubleComplex (Some (- 1)) (Some 0)) (a ! 0);
               w' = Zaxpy dimn axpytemp host_v0 w;
               normtemp = Dznrm2 dimn w'
           in ebind (store b 1 (make_cuDoubleComplex (sqrt_double normtemp) (Some 0))) (\<lambda>b'.
              let g = recip (cuCreal (b' ! 1))
              in ebind (claim (device_grants mem) 8 (int num_Eig)) (\<lambda>n_ord.
                 ebind (claim (device_grants mem) 8 (int max_It)) (\<lambda>n_diag.
                 ebind (claim (host_grants mem) 8 (int max_It)) (\<lambda>n_hdiag.
                 ebind (claim (device_grants mem) 16 (int dimn)) (\<lambda>n_tmp.
                 Inr \<lparr> d_a = a, d_b = b', d_lanczvec = replicate n_lv (Some 0),
                       v0 = host_v0, v1 = w', v2 = replicate dimn (Some 0),
                       temp = replicate n_tmp (Some 0),
                       y_dummy = Zaxpy_scratch dimn g w' (Some (replicate n_y 0)), gamma = g,
                       d_ordered = replicate n_ord (Some 0), d_ordered_ptr = 0,
                       gs_Energy = Some 1, eigtemp = Some 0, iter = 0, max_Iter = max_It,
                       d_diag = replicate n_diag (Some 0),
                       d_offdia = replicate n_diag (Some 0) \<rparr>)))))))))))))))
      else Inl NotAnInt)"

text \<open>
  Lines 344 to 415 of a round: \<open>iter\<close> is incremented, \<open>eigtemp\<close> read, \<open>v2 = H v1\<close>,
  \<open>d_a[iter] = <v1, v2>\<close>, \<open>temp = v1 + (d_b[iter]/d_a[iter]) v0\<close>,
  \<open>v2 = v2 + d_a[iter] temp\<close>, \<open>d_b[iter+1] = sqrt(nrm2(v2))\<close>,
  \<open>y = y + (1/d_b[iter+1]) v2\<close>, \<open>v0\<close> is copied into the basis store at the offset
  \<open>dim*(iter - 1)\<close>, a product of ints, the vectors are shifted, and the new coefficients are
  copied into \<open>d_diag[iter]\<close>, \<open>d_offdia[iter+1]\<close>. Nothing here depends on the value of a
  coefficient: a quotient by zero is a NaN and the round goes on.
\<close>

definition recurrence :: "matvec \<Rightarrow> coo_matrix \<Rightarrow> nat \<Rightarrow> lanczos_state \<Rightarrow> error + lanczos_state" where
  "recurrence mv A dimn st =
     (let it = iter st + 1
      in ebind (fetch (d_ordered st) (d_ordered_ptr st)) (\<lambda>eig.
         let w = mv dimn A (v1 st);
             dottemp = Zdotc dimn (v1 st) w
         in ebind (store (d_a st) it dottemp) (\<lambda>a.
            ebind (fetch (d_b st) it) (\<lambda>b_it.
            let axpytemp = cuCdiv b_it (a ! it);
                tmp = Zaxpy dimn axpytemp (v0 st) (take dimn (v1 st));
                w' = Zaxpy dimn (a ! it) tmp w;
                normtemp = Dznrm2 dimn w'
            in ebind (store (d_b st) (it + 1) (make_cuDoubleComplex (sqrt_double normtemp) (Some 0))) (\<lambda>b.
               let g = recip (cuCreal (b ! (it + 1)))
               in ebind (offset32 (wrap32 (int dimn * (int it - 1)))) (\<lambda>k.
                  ebind (memcpy_at (d_lanczvec st) k (take dimn (v0 st))) (\<lambda>lv.
                  ebind (store (d_diag st) it (cuCreal (a ! it))) (\<lambda>dg.
                  ebind (store (d_offdia st) (it + 1) (cuCreal (b ! (it + 1)))) (\<lambda>od.
                  Inr (st \<lparr> iter := it, eigtemp := eig, d_a := a, d_b := b, temp := tmp,
                            v2 := w', gamma := g,
                            y_dummy := Zaxpy_scratch dimn g w' (y_dummy st),
                            d_lanczvec := lv, v0 := take dimn (v1 st), v1 := take dimn w',
                            d_diag := dg, d_offdia := od \<rparr>))))))))))"

text \<open>
  Lines 417 to 441. The matrix of eigenvectors is asked for on the device and on the host,
  \<open>max_Iter*max_Iter\<close> doubles each (a product of ints); the two kernels write into the
  device buffer, and the host buffer is handed to the solver. Its contents are not used
  afterwards and are left out. The eigensolver then runs on the host copies with
  \<open>n = iter + 1\<close>, the diagonal is copied back into \<open>d_diag\<close>, the whole of \<open>d_diag\<close> is
  sorted, its first \<open>num_Eig\<close> elements are copied into \<open>d_ordered\<close>, and \<open>gs_Energy\<close>
  is read from \<open>d_ordered[num_Eig - 1]\<close>, which is outside the vector for \<open>num_Eig = 0\<close>.
\<close>

definition eigen_matrix :: "memory \<Rightarrow> nat \<Rightarrow> lanczos_state \<Rightarrow> error + nat" where
  "eigen_matrix mem dimn st =
     (let mm = wrap32 (int (max_Iter st) * int (max_Iter st))
      in ebind (if kernel_extent dimn (iter st) = 0 then Inr 0
                else ebind (claim (device_grants mem) 8 mm) (\<lambda>n.
                       if kernel_extent dimn (iter st) \<le> n then Inr n else Inl OutOfBounds)) (\<lambda>n_dev.
         claim (host_grants mem) 8 mm))"

definition extract_spectrum ::
  "memory \<Rightarrow> eigensolver \<Rightarrow> nat \<Rightarrow> nat \<Rightarrow> lanczos_state \<Rightarrow> error + lanczos_state" where
  "extract_spectrum mem tq dimn num_Eig st =
     ebind (eigen_matrix mem dimn st) (\<lambda>n_eigen.
     if iter st < length (d_diag st) \<and> iter st < length (d_offdia st)
     then (let h_diag = tq (d_diag st) (d_offdia st) (iter st + 1);
               sorted_diag = thrust_sort h_diag
           in if 1 \<le> num_Eig \<and> num_Eig \<le> length sorted_diag \<and> num_Eig \<le> length (d_ordered st)
              then (let ord = take num_Eig sorted_diag @ drop num_Eig (d_ordered st)
                    in ebind (fetch ord (num_Eig - 1)) (\<lambda>gs.
                       Inr (st \<lparr> d_diag := sorted_diag, d_ordered := ord,
                                 d_ordered_ptr := num_Eig - 1, gs_Energy := gs \<rparr>)))
              else Inl OutOfBounds)
     else Inl OutOfBounds)"

text \<open>
  Lines 449 to 456: the body of \<^verbatim>\<open>if (iter == max_Iter - 1)\<close>. The host copies of the
  diagonal and the off-diagonal are resized here as well; their contents are overwritten
  before the next use.
\<close>

definition resize_arrays :: "nat \<Rightarrow> lanczos_state \<Rightarrow> lanczos_state" where
  "resize_arrays dimn st =
     st \<lparr> d_a := vec_resize (d_a st) (2 * max_Iter st),
          d_b := vec_resize (d_b st) (2 * max_Iter st),
          d_diag := vec_resize (d_diag st) (2 * max_Iter st),
          d_offdia := vec_resize (d_offdia st) (2 * max_Iter st),
          d_lanczvec := vec_resize (d_lanczvec st) (2 * max_Iter st * dimn),
          max_Iter := max_Iter st * 2 \<rparr>"

definition grow_trigger :: "lanczos_state \<Rightarrow> bool" where
  "grow_trigger st = (int (iter st) = int (max_Iter st) - 1)"

text \<open>
  The growth with its requests for memory. The new sizes \<open>2*max_Iter\<close> and
  \<open>2*max_Iter*dim\<close> are products of ints: where one wraps to a negative number the request
  is refused, and where the second wraps to another number the basis store gets that
  many elements. The raw pointers \<^verbatim>\<open>h_diag_ptr\<close> and \<^verbatim>\<open>h_offdia_ptr\<close> are those
  taken at lines 332 and 334, before any growth; no round of a run of the model follows a
  growth (lemma \<open>loop_keeps_capacity\<close> below), so what the solver would read through
  them then is not modelled.
\<close>

definition grow :: "memory \<Rightarrow> nat \<Rightarrow> lanczos_state \<Rightarrow> error + lanczos_state" where
  "grow mem dimn st =
     ebind (claim (device_grants mem) 16 (wrap32 (2 * int (max_Iter st)))) (\<lambda>n_a.
     ebind (claim (device_grants mem) 8 (wrap32 (2 * int (max_Iter st)))) (\<lambda>n_diag.
     ebind (claim (host_grants mem) 8 (wrap32 (2 * int (max_Iter st)))) (\<lambda>n_hdiag.
     ebind (claim (device_grants mem) 16 (wrap32 (2 * int (max_Iter st) * int dimn))) (\<lambda>n_lv.
     Inr ((resize_arrays dimn st) \<lparr> d_lanczvec := vec_resize (d_lanczvec st) n_lv \<rparr>)))))"

text \<open>One round of the \<^verbatim>\<open>while\<close> loop.\<close>

definition lanczos_round ::
  "memory \<Rightarrow> matvec \<Rightarrow> eigensolver \<Rightarrow> coo_matrix \<Rightarrow> nat \<Rightarrow> nat \<Rightarrow> lanczos_state
     \<Rightarrow> error + lanczos_state" where
  "lanczos_round mem mv tq A dimn num_Eig st =
     ebind (recurrence mv A dimn st) (\<lambda>s1.
     ebind (extract_spectrum mem tq dimn num_Eig s1) (\<lambda>s2.
     if grow_trigger s2 then grow mem dimn s2 else Inr s2))"

text \<open>
  The test \<^verbatim>\<open>fabs(gs_Energy - eigtemp) > conv_req\<close> of the loop; a comparison with a NaN
  is false.
\<close>

definition unconverged :: "real \<Rightarrow> lanczos_state \<Rightarrow> bool" where
  "unconverged conv_req st =
     (case nan2 (\<lambda>g e. \<bar>g - e\<bar>) (gs_Energy st) (eigtemp st) of
        None \<Rightarrow> False
      | Some delta \<Rightarrow> delta > conv_req)"

text \<open>The \<^verbatim>\<open>while\<close> loop; \<open>None\<close> is a loop that never ends.\<close>

partial_function (option) lanczos_loop ::
  "memory \<Rightarrow> matvec \<Rightarrow> eigensolver \<Rightarrow> coo_matrix \<Rightarrow> nat \<Rightarrow> nat \<Rightarrow> real \<Rightarrow> lanczos_state
     \<Rightarrow> (error + lanczos_state) option" where
  "lanczos_loop mem mv tq A dimn num_Eig conv_req st =
     (if unconverged conv_req st
      then (case lanczos_round mem mv tq A dimn num_Eig st of
              Inl err \<Rightarrow> Some (Inl err)
            | Inr st' \<Rightarrow> lanczos_loop mem mv tq A dimn num_Eig conv_req st')
      else Some (Inr st))"

text \<open>
  Lines 462 to 492: the host vector \<^verbatim>\<open>h_ordered\<close> is asked for, filled from
  \<open>d_ordered\<close> and printed, \<open>num_Eig\<close> elements of it; then the host copy of the basis
  store is asked for, \<open>max_Iter*dim\<close> elements (a product of ints), and the call returns.
\<close>

definition h_ordered :: "lanczos_state \<Rightarrow> real option list" where
  "h_ordered st = d_ordered st"

definition finish :: "memory \<Rightarrow> nat \<Rightarrow> nat \<Rightarrow> lanczos_state \<Rightarrow> error + lanczos_state" where
  "finish mem dimn num_Eig st =
     ebind (claim (host_grants mem) 8 (int num_Eig)) (\<lambda>n_ord.
     if num_Eig \<le> length (h_ordered st)
     then ebind (claim (host_grants mem) 16 (wrap32 (int (max_Iter st) * int dimn))) (\<lambda>n_lv.
          Inr st)
     else Inl OutOfBounds)"

text \<open>
  The whole call. \<open>Some (Inr st)\<close>: the call returns, having printed \<open>h_ordered st\<close>;
  \<open>Some (Inl e)\<close>: it does not return; \<open>None\<close>: the loop never ends.
\<close>

definition lanczos ::
  "memory \<Rightarrow> matvec \<Rightarrow> eigensolver \<Rightarrow> coo_matrix \<Rightarrow> nat \<Rightarrow> nat \<Rightarrow> nat \<Rightarrow> real
     \<Rightarrow> (error + lanczos_state) option" where
  "lanczos mem mv tq A dimn max_It num_Eig conv_req =
     (case lanczos_init mem mv A dimn max_It num_Eig of
        Inl err \<Rightarrow> Some (Inl err)
      | Inr st \<Rightarrow>
          map_option (\<lambda>r. ebind r (finish mem dimn num_Eig))
            (lanczos_loop mem mv tq A dimn num_Eig conv_req st))"

section \<open>What the spec asks for, the conditions of success, and the inputs of the concrete runs\<close>

text \<open>
  The residual as the spec writes it (4.1, step 3): \<open>w - alpha v - beta u\<close>, element by
  element, to be compared with what \<open>recurrence\<close> leaves in \<open>v2\<close>.
\<close>
definition spec_residual ::
  "complex option list \<Rightarrow> complex option \<Rightarrow> complex option list \<Rightarrow> complex option
     \<Rightarrow> complex option list \<Rightarrow> complex option list" where
  "spec_residual w alpha v beta u =
     map (\<lambda>(wi, vi, ui). cuCsub (cuCsub wi (cuCmul alpha vi)) (cuCmul beta ui)) (zip w (zip v u))"


text \<open>
  \<open>granted grants width n\<close>: the request \<open>claim grants width n\<close> is not refused.
  \<open>init_accepts\<close> collects what the initialisation needs of its sizes and of the memory:
  arguments that are values of \<^verbatim>\<open>int\<close>, room for the writes of \<open>d_a[0]\<close>, \<open>d_b[0]\<close>
  and \<open>d_b[1]\<close>, and its requests for memory. \<open>recurrence_fits\<close> collects the accesses of
  lines 344 to 415 of a round.
\<close>
definition granted :: "(nat \<Rightarrow> bool) \<Rightarrow> nat \<Rightarrow> int \<Rightarrow> bool" where
  "granted grants width n = (0 \<le> n \<and> (n = 0 \<or> grants (nat n * width)))"

definition init_accepts :: "memory \<Rightarrow> nat \<Rightarrow> nat \<Rightarrow> nat \<Rightarrow> bool" where
  "init_accepts mem dimn max_It num_Eig =
     (is_int dimn \<and> is_int max_It \<and> is_int num_Eig \<and> 2 \<le> max_It \<and>
      granted (device_grants mem) 4 (wrap32 (int dimn + 1)) \<and>
      granted (device_grants mem) 16 (int max_It) \<and>
      granted (device_grants mem) 16 (wrap32 (int dimn * int max_It)) \<and>
      granted (device_grants mem) 16 (int dimn) \<and>
      granted (host_grants mem) 16 (int dimn) \<and>
      granted (device_grants mem) 16 1 \<and>
      granted (device_grants mem) 8 (int num_Eig) \<and>
      granted (device_grants mem) 8 (int max_It) \<and>
      granted (host_grants mem) 8 (int max_It))"

definition recurrence_fits :: "nat \<Rightarrow> lanczos_state \<Rightarrow> bool" where
  "recurrence_fits dimn st =
     (d_ordered_ptr st < length (d_ordered st) \<and> iter st + 1 < length (d_a st) \<and>
      iter st + 2 < length (d_b st) \<and>
      0 \<le> wrap32 (int dimn * int (iter st)) \<and>
      nat (wrap32 (int dimn * int (iter st))) + length (take dimn (v0 st))
        \<le> length (d_lanczvec st) \<and>
      iter st + 1 < length (d_diag st) \<and> iter st + 2 < length (d_offdia st))"

text \<open>A device and a host that grant every request of at most \<open>2^30\<close> bytes.\<close>
definition gigabyte :: memory where
  "gigabyte = \<lparr> device_grants = (\<lambda>bytes. bytes \<le> 2 ^ 30), host_grants = (\<lambda>bytes. bytes \<le> 2 ^ 30) \<rparr>"

text \<open>
  The symmetric matrix with the rows \<open>(-1, 1)\<close> and \<open>(1, 0)\<close>, the one with the rows
  \<open>(0, -1)\<close> and \<open>(-1, 1)\<close>, the 1 by 1 matrix \<open>(5)\<close>, and the diagonal matrix
  \<open>diag(1, 2, 3)\<close>, each by its non-zero entries.
\<close>
definition H1 :: coo_matrix where
  "H1 = \<lparr> num_Elem = 3, d_H_vals = [- 1, 1, 1], d_H_rows = [0, 0, 1], d_H_cols = [0, 1, 0] \<rparr>"

definition H2 :: coo_matrix where
  "H2 = \<lparr> num_Elem = 3, d_H_vals = [- 1, - 1, 1], d_H_rows = [0, 1, 1], d_H_cols = [1, 0, 1] \<rparr>"

definition H3 :: coo_matrix where
  "H3 = \<lparr> num_Elem = 1, d_H_vals = [5], d_H_rows = [0], d_H_cols = [0] \<rparr>"


text \<open>
  The call \<^verbatim>\<open>lanczos\<close> on \<open>H1\<close> with \<open>dim = 2\<close>, \<open>max_Iter = 4\<close>, \<open>num_Eig = 1\<close>: the
  state before the loop, after the recurrence of the first round, and after the first round.
\<close>
definition run1_init :: lanczos_state where
  "run1_init =
     \<lparr> d_a = [Some 1, Some 0, Some 0, Some 0], d_b = [Some 0, Some 1, Some 0, Some 0],
       d_lanczvec = [Some 0, Some 0, Some 0, Some 0, Some 0, Some 0, Some 0, Some 0],
       v0 = [Some 1, Some 1], v1 = [Some (- 1), Some 0], v2 = [Some 0, Some 0],
       temp = [Some 0, Some 0], y_dummy = Some [- 1, 0],
       gamma = Some 1, d_ordered = [Some 0], d_ordered_ptr = 0, gs_Energy = Some 1,
       eigtemp = Some 0, iter = 0, max_Iter = 4,
       d_diag = [Some 0, Some 0, Some 0, Some 0], d_offdia = [Some 0, Some 0, Some 0, Some 0] \<rparr>"

definition run1_recurrence :: lanczos_state where
  "run1_recurrence =
     \<lparr> d_a = [Some 1, Some (- 1), Some 0, Some 0],
       d_b = [Some 0, Some 1, Some (complex_of_real (sqrt 3)), Some 0],
       d_lanczvec = [Some 1, Some 1, Some 0, Some 0, Some 0, Some 0, Some 0, Some 0],
       v0 = [Some (- 1), Some 0], v1 = [Some 3, Some 0], v2 = [Some 3, Some 0],
       temp = [Some (- 2), Some (- 1)],
       y_dummy = Some [- 1 + 3 / complex_of_real (sqrt 3), 0],
       gamma = Some (1 / sqrt 3), d_ordered = [Some 0], d_ordered_ptr = 0, gs_Energy = Some 1,
       eigtemp = Some 0, iter = 1, max_Iter = 4,
       d_diag = [Some 0, Some (- 1), Some 0, Some 0],
       d_offdia = [Some 0, Some 0, Some (sqrt 3), Some 0] \<rparr>"

definition run1_round :: lanczos_state where
  "run1_round =
     run1_recurrence \<lparr> d_diag := [Some (- 1), Some 0, Some 0, Some 0], d_ordered := [Some (- 1)],
                       d_ordered_ptr := 0, gs_Energy := Some (- 1) \<rparr>"

text \<open>The same for \<open>H2\<close> with \<open>dim = 2\<close>, \<open>max_Iter = 4\<close>, \<open>num_Eig = 2\<close>.\<close>
definition run2_init :: lanczos_state where
  "run2_init =
     \<lparr> d_a = [Some (- 1), Some 0, Some 0, Some 0], d_b = [Some 0, Some 1, Some 0, Some 0],
       d_lanczvec = [Some 0, Some 0, Some 0, Some 0, Some 0, Some 0, Some 0, Some 0],
       v0 = [Some 1, Some 1], v1 = [Some 0, Some 1], v2 = [Some 0, Some 0],
       temp = [Some 0, Some 0], y_dummy = Some [0, 1],
       gamma = Some 1, d_ordered = [Some 0, Some 0], d_ordered_ptr = 0, gs_Energy = Some 1,
       eigtemp = Some 0, iter = 0, max_Iter = 4,
       d_diag = [Some 0, Some 0, Some 0, Some 0], d_offdia = [Some 0, Some 0, Some 0, Some 0] \<rparr>"

definition run2_recurrence :: lanczos_state where
  "run2_recurrence =
     \<lparr> d_a = [Some (- 1), Some 1, Some 0, Some 0],
       d_b = [Some 0, Some 1, Some (complex_of_real (sqrt 3)), Some 0],
       d_lanczvec = [Some 1, Some 1, Some 0, Some 0, Some 0, Some 0, Some 0, Some 0],
       v0 = [Some 0, Some 1], v1 = [Some 0, Some 3], v2 = [Some 0, Some 3],
       temp = [Some 1, Some 2],
       y_dummy = Some [0, 1 + 3 / complex_of_real (sqrt 3)],
       gamma = Some (1 / sqrt 3), d_ordered = [Some 0, Some 0], d_ordered_ptr = 0,
       gs_Energy = Some 1, eigtemp = Some 0, iter = 1, max_Iter = 4,
       d_diag = [Some 0, Some 1, Some 0, Some 0],
       d_offdia = [Some 0, Some 0, Some (sqrt 3), Some 0] \<rparr>"

definition run2_round :: lanczos_state where
  "run2_round =
     run2_recurrence \<lparr> d_diag := [Some 0, Some 0, Some 0, Some 1], d_ordered := [Some 0, Some 0],
                       d_ordered_ptr := 1, gs_Energy := Some 0 \<rparr>"

text \<open>
  The call on \<open>H3\<close> with \<open>dim = 1\<close>, \<open>max_Iter = 4\<close>, \<open>num_Eig = 1\<close>: the state before
  the loop and after the first round. The start vector is an eigenvector, both coefficients
  \<open>d_b[1]\<close> and \<open>d_a[1]\<close> are zero, and their quotient is a NaN.
\<close>
definition run3_init :: lanczos_state where
  "run3_init =
     \<lparr> d_a = [Some 5, Some 0, Some 0, Some 0], d_b = [Some 0, Some 0, Some 0, Some 0],
       d_lanczvec = [Some 0, Some 0, Some 0, Some 0],
       v0 = [Some 1], v1 = [Some 0], v2 = [Some 0], temp = [Some 0], y_dummy = None,
       gamma = None, d_ordered = [Some 0], d_ordered_ptr = 0, gs_Energy = Some 1,
       eigtemp = Some 0, iter = 0, max_Iter = 4,
       d_diag = [Some 0, Some 0, Some 0, Some 0], d_offdia = [Some 0, Some 0, Some 0, Some 0] \<rparr>"

definition run3_round :: lanczos_state where
  "run3_round =
     \<lparr> d_a = [Some 5, Some 0, Some 0, Some 0], d_b = [Some 0, Some 0, None, Some 0],
       d_lanczvec = [Some 1, Some 0, Some 0, Some 0],
       v0 = [Some 0], v1 = [None], v2 = [None], temp = [None], y_dummy = None,
       gamma = None, d_ordered = [Some 0], d_ordered_ptr = 0, gs_Energy = Some 0,
       eigtemp = Some 0, iter = 1, max_Iter = 4,
       d_diag = [Some 0, Some 0, Some 0, Some 0], d_offdia = [Some 0, Some 0, None, Some 0] \<rparr>"

section \<open>Evaluating the model\<close>

lemma nan2_simps [simp]:
  "nan2 f (Some a) (Some b) = Some (f a b)" "nan2 f None y = None" "nan2 f x None = None"
  by (simp_all add: nan2_def split: option.splits)

lemmas blas_defs = make_cuDoubleComplex_def cuCreal_def cuCmul_def cuCadd_def Zdotc_def Zaxpy_def
  Dznrm2_def sqrt_double_def recip_def Zaxpy_scratch_def cuCdiv_def

lemmas mem_defs = store_def fetch_def ebind_def memcpy_at_def offset32_def

lemma wrap32_int: "0 \<le> x \<Longrightarrow> x < 2147483648 \<Longrightarrow> wrap32 x = x"
  by (simp add: wrap32_def)

lemma claim_granted:
  "claim grants width n = (if granted grants width n then Inr (nat n) else Inl AllocFailed)"
  by (simp add: claim_def granted_def)

lemma claim_gigabyte:
  "0 \<le> n \<Longrightarrow> nat n * width \<le> 1073741824 \<Longrightarrow> claim (device_grants gigabyte) width n = Inr (nat n)"
  "0 \<le> n \<Longrightarrow> nat n * width \<le> 1073741824 \<Longrightarrow> claim (host_grants gigabyte) width n = Inr (nat n)"
  by (simp_all add: claim_def gigabyte_def)

lemma Complex_zero_im: "Complex r 0 = complex_of_real r"
  by (simp add: complex_of_real_def)

lemma replicate_2: "replicate 2 x = [x, x]"
  by (simp add: numeral_2_eq_2)


lemma replicate_4: "replicate 4 x = [x, x, x, x]"
  by (simp add: numeral_Bit0 replicate_add)


lemma replicate_8: "replicate 8 x = [x, x, x, x, x, x, x, x]"
  by (simp add: numeral_Bit0 replicate_add)

lemma sqrt_9: "sqrt 9 = 3"
  using real_sqrt_abs [of 3] by simp


lemma thrust_sort_numbers: "thrust_sort (map Some xs) = map Some (sort xs)"
  by (simp add: thrust_sort_def List.map_filter_def comp_def)

lemma kernel_extent_1: "0 < dimn \<Longrightarrow> dimn < 1000 \<Longrightarrow> kernel_extent dimn (Suc 0) = 1"
  by (simp add: kernel_extent_def bpg_def tpb_def wrap32_int Let_def)


subsection \<open>The eigensolver on a matrix that is already diagonal\<close>

lemma find_m_here: "n \<le> l + 1 \<or> e ! l = 0 \<Longrightarrow> find_m e n l = l"
  by (subst find_m.simps) auto

lemma ql_index_Suc_deflated: "find_m e n l = l \<Longrightarrow> ql_index (Suc k) l n d e = (d, e)"
  by simp

lemma ql_index_30_deflated: "find_m e n l = l \<Longrightarrow> ql_index 30 l n d e = (d, e)"
  using ql_index_Suc_deflated [of e n l 29 d] by simp

lemma foldl_fixed: "\<forall>l\<in>set ls. f x l = x \<Longrightarrow> foldl f x ls = x"
  by (induction ls) simp_all

lemma ql_implicit_deflated:
  assumes e: "list_all (\<lambda>x. x = 0) (take (n - 1) (drop 1 e))" and n: "n \<le> length e"
  shows "ql_implicit d e n = d"
proof -
  have zero: "e ! (l + 1) = 0" if "l + 1 < n" for l
  proof -
    have "take (n - 1) (drop 1 e) ! l = 0"
      using e that n by (simp add: list_all_length)
    then show ?thesis using that n by (simp add: nth_drop)
  qed
  have "find_m (renumber e n) n l = l" if "l < n" for l
  proof (cases "l + 1 < n")
    case True
    then have "renumber e n ! l = e ! (l + 1)"
      using n by (simp add: renumber_def)
    with zero True show ?thesis by (simp add: find_m_here)
  next
    case False
    then show ?thesis by (simp add: find_m_here)
  qed
  then have "\<forall>l\<in>set [0..<n].
      ql_index 30 l n (fst (d, renumber e n)) (snd (d, renumber e n)) = (d, renumber e n)"
    by (simp add: ql_index_30_deflated)
  then have "foldl (\<lambda>de l. ql_index 30 l n (fst de) (snd de)) (d, renumber e n) [0..<n]
      = (d, renumber e n)"
    by (rule foldl_fixed)
  then show ?thesis unfolding ql_implicit_def by simp
qed

lemma numbers_back: "list_all (\<lambda>x. x \<noteq> None) xs \<Longrightarrow> map Some (map number_or_zero xs) = xs"
  by (induction xs) (auto simp: number_or_zero_def)

lemma tqli_deflated:
  assumes d: "list_all (\<lambda>x. x \<noteq> None) (take n d)"
    and e: "list_all (\<lambda>x. x = Some 0) (take (n - 1) (drop 1 e))" and n: "n \<le> length e"
  shows "tqli d e n = d"
proof -
  have "list_all (\<lambda>x. x = 0) (take (n - 1) (drop 1 (map number_or_zero e)))"
    using e by (simp add: list_all_length number_or_zero_def take_map drop_map)
  then have "ql_implicit (map number_or_zero d) (map number_or_zero e) n = map number_or_zero d"
    using n by (simp add: ql_implicit_deflated)
  moreover have "list_all (\<lambda>x. x \<noteq> None) (take (n - 1) (drop 1 e))"
    using e by (simp add: list_all_length)
  moreover have "map Some (take n (map number_or_zero d)) = take n d"
    using numbers_back [OF d] by (simp add: take_map)
  ultimately show ?thesis using d by (simp add: tqli_def)
qed

section \<open>The initialisation\<close>

text \<open>
  Whether the initialisation succeeds is a matter of the sizes and of the memory; the
  operator and the product play no part.
\<close>

lemma lanczos_init_accepts:
  "(\<exists>st. lanczos_init mem mv A dimn max_It k = Inr st) = init_accepts mem dimn max_It k"
  by (auto simp: lanczos_init_def init_accepts_def claim_granted Let_def mem_defs)

lemma lanczos_init_small: "max_It < 2 \<Longrightarrow> \<exists>e. lanczos_init mem mv A dimn max_It k = Inl e"
proof (cases "lanczos_init mem mv A dimn max_It k")
  case (Inl e)
  then show ?thesis by blast
next
  case (Inr st)
  then have "init_accepts mem dimn max_It k"
    using lanczos_init_accepts by blast
  moreover assume "max_It < 2"
  ultimately show ?thesis by (simp add: init_accepts_def)
qed

lemma lanczos_init_fields:
  assumes "lanczos_init mem mv A dimn max_It k = Inr st"
  shows "iter st = 0" and "gs_Energy st = Some 1" and "eigtemp st = Some 0"
    and "d_ordered st = replicate k (Some 0)" and "d_ordered_ptr st = 0"
    and "max_Iter st = max_It" and "d_diag st = replicate max_It (Some 0)"
    and "d_offdia st = replicate max_It (Some 0)"
    and "v0 st = replicate dimn (make_cuDoubleComplex (Some 1) (Some 0))"
    and "gamma st = recip (cuCreal (d_b st ! 1))"
    and "y_dummy st = Zaxpy_scratch dimn (gamma st) (v1 st) (Some (replicate dimn 0))"
    and "length (d_a st) = max_It" and "length (d_b st) = max_It"
    and "length (d_lanczvec st) = nat (wrap32 (int dimn * int max_It))"
  using assms
  by (auto simp: lanczos_init_def claim_granted Let_def mem_defs split: if_splits)


lemma lanczos_loop_exit:
  "\<not> unconverged conv_req st \<Longrightarrow> lanczos_loop mem mv tq A dimn k conv_req st = Some (Inr st)"
  by (subst lanczos_loop.simps) simp

lemma lanczos_loop_round:
  "unconverged conv_req st
    \<Longrightarrow> lanczos_loop mem mv tq A dimn k conv_req st =
        (case lanczos_round mem mv tq A dimn k st of
           Inl err \<Rightarrow> Some (Inl err)
         | Inr st' \<Rightarrow> lanczos_loop mem mv tq A dimn k conv_req st')"
  by (subst lanczos_loop.simps) simp


section \<open>One round\<close>

text \<open>
  The recurrence of a round succeeds exactly when its accesses are inside the vectors,
  whatever the values of the coefficients are.
\<close>

lemma recurrence_succeeds:
  "(\<exists>st'. recurrence mv A dimn st = Inr st') = recurrence_fits dimn st"
  by (auto simp: recurrence_def recurrence_fits_def Let_def mem_defs algebra_simps)

lemma recurrence_fails: "\<not> recurrence_fits dimn st \<Longrightarrow> recurrence mv A dimn st = Inl OutOfBounds"
  by (auto simp: recurrence_def recurrence_fits_def Let_def mem_defs algebra_simps)

lemma recurrence_bounds:
  assumes "recurrence mv A dimn st = Inr st'"
  shows "iter st + 1 < length (d_a st)" and "iter st + 2 < length (d_b st)"
    and "iter st + 1 < length (d_diag st)" and "iter st + 2 < length (d_offdia st)"
    and "d_ordered_ptr st < length (d_ordered st)"
    and "nat (wrap32 (int dimn * int (iter st))) + length (take dimn (v0 st))
           \<le> length (d_lanczvec st)"
proof -
  have "recurrence_fits dimn st"
    using assms recurrence_succeeds by blast
  then show "iter st + 1 < length (d_a st)" and "iter st + 2 < length (d_b st)"
    and "iter st + 1 < length (d_diag st)" and "iter st + 2 < length (d_offdia st)"
    and "d_ordered_ptr st < length (d_ordered st)"
    and "nat (wrap32 (int dimn * int (iter st))) + length (take dimn (v0 st))
           \<le> length (d_lanczvec st)"
    by (simp_all add: recurrence_fits_def)
qed

lemma recurrence_fields:
  assumes "recurrence mv A dimn st = Inr st'"
  shows "iter st' = iter st + 1" and "max_Iter st' = max_Iter st"
    and "eigtemp st' = d_ordered st ! d_ordered_ptr st"
    and "gs_Energy st' = gs_Energy st" and "d_ordered st' = d_ordered st"
    and "d_ordered_ptr st' = d_ordered_ptr st"
    and "d_a st' = (d_a st)[iter st + 1 := Zdotc dimn (v1 st) (mv dimn A (v1 st))]"
    and "d_b st' = (d_b st)[iter st + 2 :=
           make_cuDoubleComplex (sqrt_double (Dznrm2 dimn (v2 st'))) (Some 0)]"
    and "d_lanczvec st' =
           take (nat (wrap32 (int dimn * int (iter st)))) (d_lanczvec st) @ take dimn (v0 st)
           @ drop (nat (wrap32 (int dimn * int (iter st))) + length (take dimn (v0 st)))
               (d_lanczvec st)"
    and "v0 st' = take dimn (v1 st)" and "v1 st' = take dimn (v2 st')"
    and "d_diag st' = (d_diag st)[iter st + 1 := cuCreal (d_a st' ! (iter st + 1))]"
    and "d_offdia st' = (d_offdia st)[iter st + 2 := cuCreal (d_b st' ! (iter st + 2))]"
    and "temp st' = Zaxpy dimn (cuCdiv (d_b st ! (iter st + 1)) (d_a st' ! (iter st + 1)))
                      (v0 st) (take dimn (v1 st))"
    and "v2 st' = Zaxpy dimn (d_a st' ! (iter st + 1)) (temp st') (mv dimn A (v1 st))"
    and "gamma st' = recip (cuCreal (d_b st' ! (iter st + 2)))"
    and "y_dummy st' = Zaxpy_scratch dimn (gamma st') (v2 st') (y_dummy st)"
  using assms
  by (auto simp: recurrence_def Let_def mem_defs algebra_simps split: if_splits)

text \<open>
  Nothing reads the scratch vector or the reciprocal kept from the round before: a round
  started with others ends alike, but for the scratch vector.
\<close>

lemma recurrence_scratch_independent:
  "recurrence mv A dimn (st\<lparr>gamma := g, y_dummy := yy\<rparr>) =
     map_sum id (\<lambda>s. s\<lparr>y_dummy := Zaxpy_scratch dimn (gamma s) (v2 s) yy\<rparr>)
       (recurrence mv A dimn st)"
  by (simp add: recurrence_def Let_def mem_defs)

lemma eigen_matrix_scratch: "eigen_matrix mem dimn (st\<lparr>y_dummy := yy\<rparr>) = eigen_matrix mem dimn st"
  by (simp add: eigen_matrix_def cong: if_cong)

lemma extract_scratch_independent:
  "extract_spectrum mem tq dimn k (st\<lparr>y_dummy := yy\<rparr>) =
     map_sum id (\<lambda>s. s\<lparr>y_dummy := yy\<rparr>) (extract_spectrum mem tq dimn k st)"
  by (cases "eigen_matrix mem dimn st")
    (simp_all add: extract_spectrum_def eigen_matrix_scratch Let_def mem_defs)

lemma extract_keeps:
  assumes "extract_spectrum mem tq dimn k st = Inr st'"
  shows "gamma st' = gamma st" and "v2 st' = v2 st" and "v1 st' = v1 st" and "v0 st' = v0 st"
    and "iter st' = iter st" and "max_Iter st' = max_Iter st" and "y_dummy st' = y_dummy st"
    and "d_a st' = d_a st" and "d_b st' = d_b st" and "d_lanczvec st' = d_lanczvec st"
    and "eigtemp st' = eigtemp st" and "d_offdia st' = d_offdia st"
  using assms
  by (auto simp: extract_spectrum_def eigen_matrix_def Let_def mem_defs claim_granted
      split: if_splits)

lemma extraction_sorted_prefix:
  assumes "extract_spectrum mem tq dimn k st = Inr st'" and "length (d_ordered st) = k"
  shows "d_diag st' = thrust_sort (tq (d_diag st) (d_offdia st) (iter st + 1))"
    and "d_ordered st' = take k (d_diag st')"
    and "length (d_ordered st') = k"
    and "gs_Energy st' = d_ordered st' ! (k - 1)"
  using assms
  by (auto simp: extract_spectrum_def eigen_matrix_def Let_def mem_defs claim_granted
      split: if_splits)

lemma grow_scratch_independent:
  "grow mem dimn (st\<lparr>y_dummy := yy\<rparr>) = map_sum id (\<lambda>s. s\<lparr>y_dummy := yy\<rparr>) (grow mem dimn st)"
  by (simp add: grow_def resize_arrays_def claim_granted ebind_def)

lemma grow_keeps:
  assumes "grow mem dimn st = Inr st'"
  shows "gamma st' = gamma st" and "v2 st' = v2 st"
  using assms by (auto simp: grow_def resize_arrays_def claim_granted ebind_def split: if_splits)

lemma round_scratch_independent:
  "lanczos_round mem mv tq A dimn k (st\<lparr>gamma := g, y_dummy := yy\<rparr>) =
     map_sum id (\<lambda>s. s\<lparr>y_dummy := Zaxpy_scratch dimn (gamma s) (v2 s) yy\<rparr>)
       (lanczos_round mem mv tq A dimn k st)"
proof (cases "recurrence mv A dimn st")
  case (Inl e)
  then show ?thesis
    by (simp add: lanczos_round_def recurrence_scratch_independent ebind_def)
next
  case r: (Inr s1)
  show ?thesis
  proof (cases "extract_spectrum mem tq dimn k s1")
    case (Inl e)
    then show ?thesis using r
      by (simp add: lanczos_round_def recurrence_scratch_independent
          extract_scratch_independent ebind_def)
  next
    case e: (Inr s2)
    show ?thesis
    proof (cases "grow mem dimn s2")
      case (Inl e')
      then show ?thesis using r e extract_keeps [OF e]
        by (simp add: lanczos_round_def recurrence_scratch_independent
            extract_scratch_independent grow_scratch_independent ebind_def grow_trigger_def)
    next
      case (Inr s3)
      then show ?thesis using r e extract_keeps [OF e] grow_keeps [OF Inr]
        by (simp add: lanczos_round_def recurrence_scratch_independent
            extract_scratch_independent grow_scratch_independent ebind_def grow_trigger_def)
    qed
  qed
qed

text \<open>
  In a state whose vector \<open>d_b\<close> has \<open>max_Iter\<close> elements, the round that would reach the
  test \<^verbatim>\<open>iter == max_Iter - 1\<close> writes \<open>d_b[iter + 1]\<close> outside the vector, and a
  round that succeeds leaves the capacity as it was.
\<close>

lemma growth_round_overflows:
  assumes "length (d_b st) = max_Iter st" and "iter st + 2 = max_Iter st"
  shows "lanczos_round mem mv tq A dimn k st = Inl OutOfBounds"
proof -
  have "\<not> recurrence_fits dimn st"
    using assms by (simp add: recurrence_fits_def)
  then show ?thesis
    by (simp add: lanczos_round_def recurrence_fails ebind_def)
qed

lemma successful_round_keeps_capacity:
  assumes "length (d_b st) = max_Iter st" and "lanczos_round mem mv tq A dimn k st = Inr st'"
  shows "max_Iter st' = max_Iter st" and "length (d_b st') = length (d_b st)"
    and "length (d_a st') = length (d_a st)" and "length (d_lanczvec st') = length (d_lanczvec st)"
    and "iter st' = iter st + 1"
proof -
  from assms(2) obtain s1 s2 where s1: "recurrence mv A dimn st = Inr s1"
    and s2: "extract_spectrum mem tq dimn k s1 = Inr s2"
    and st': "(if grow_trigger s2 then grow mem dimn s2 else Inr s2) = Inr st'"
    by (auto simp: lanczos_round_def ebind_def split: sum.splits)
  have "iter st + 2 < max_Iter st"
    using recurrence_bounds(2) [OF s1] assms(1) by simp
  moreover have "iter s2 = iter st + 1" and "max_Iter s2 = max_Iter st"
    using extract_keeps [OF s2] recurrence_fields [OF s1] by simp_all
  ultimately have "\<not> grow_trigger s2"
    by (simp add: grow_trigger_def)
  with st' have eq: "st' = s2" by simp
  show "max_Iter st' = max_Iter st" and "iter st' = iter st + 1"
    using eq \<open>max_Iter s2 = max_Iter st\<close> \<open>iter s2 = iter st + 1\<close> by simp_all
  show "length (d_b st') = length (d_b st)" and "length (d_a st') = length (d_a st)"
    and "length (d_lanczvec st') = length (d_lanczvec st)"
    using eq extract_keeps [OF s2] recurrence_fields [OF s1] recurrence_bounds(6) [OF s1]
    by simp_all
qed

text \<open>
  Hence in a call that returns the capacity is the one it was given: no growth is ever
  completed.
\<close>

lemma loop_keeps_capacity_aux:
  assumes "lanczos_loop mem mv tq A dimn k conv_req st = Some r"
  shows "\<forall>st'. r = Inr st' \<longrightarrow> length (d_b st) = max_Iter st
           \<longrightarrow> max_Iter st' = max_Iter st \<and> length (d_b st') = max_Iter st'"
proof (rule lanczos_loop.raw_induct
    [where P = "\<lambda>mem mv tq A dimn k conv_req st r.
        \<forall>st'. r = Inr st' \<longrightarrow> length (d_b st) = max_Iter st
          \<longrightarrow> max_Iter st' = max_Iter st \<and> length (d_b st') = max_Iter st'",
      OF _ assms])
  fix loop mem mv tq A dimn k conv_req st r
  assume IH: "\<And>mem mv tq A dimn k conv_req st r.
      loop mem mv tq A dimn k conv_req st = Some r \<Longrightarrow>
      \<forall>st'. r = Inr st' \<longrightarrow> length (d_b st) = max_Iter st
        \<longrightarrow> max_Iter st' = max_Iter st \<and> length (d_b st') = max_Iter st'"
    and body: "(if unconverged conv_req st
      then case lanczos_round mem mv tq A dimn k st of
           Inl err \<Rightarrow> Some (Inl err)
           | Inr st' \<Rightarrow> loop mem mv tq A dimn k conv_req st'
      else Some (Inr st)) = Some r"
  show "\<forall>st'. r = Inr st' \<longrightarrow> length (d_b st) = max_Iter st
          \<longrightarrow> max_Iter st' = max_Iter st \<and> length (d_b st') = max_Iter st'"
  proof (intro allI impI)
    fix st'
    assume r: "r = Inr st'" and len: "length (d_b st) = max_Iter st"
    show "max_Iter st' = max_Iter st \<and> length (d_b st') = max_Iter st'"
    proof (cases "unconverged conv_req st")
      case False
      with body have "r = Inr st" by simp
      with r len show ?thesis by simp
    next
      case True
      show ?thesis
      proof (cases "lanczos_round mem mv tq A dimn k st")
        case (Inl e)
        with body True have "r = Inl e" by simp
        with r show ?thesis by simp
      next
        case (Inr s)
        have s: "max_Iter s = max_Iter st" "length (d_b s) = max_Iter s"
          using successful_round_keeps_capacity(1,2) [OF len Inr] len by simp_all
        have "loop mem mv tq A dimn k conv_req s = Some r"
          using body True Inr by simp
        from IH [OF this] r s show ?thesis by simp
      qed
    qed
  qed
qed

lemma loop_keeps_capacity:
  assumes "lanczos_loop mem mv tq A dimn k conv_req st = Some (Inr st')"
    and "length (d_b st) = max_Iter st"
  shows "max_Iter st' = max_Iter st" and "length (d_b st') = max_Iter st'"
  using loop_keeps_capacity_aux [OF assms(1)] assms(2) by simp_all

text \<open>
  What the growth block keeps of \<open>d_a\<close> and \<open>d_b\<close>: their first \<open>max_Iter\<close> elements;
  the elements from \<open>max_Iter\<close> on are new and zero.
\<close>

lemma resize_keeps_prefix:
  assumes "length (d_a st) = max_Iter st" and "length (d_b st) = max_Iter st"
  shows "take (max_Iter st) (d_a (resize_arrays dimn st)) = d_a st"
    and "take (max_Iter st) (d_b (resize_arrays dimn st)) = d_b st"
    and "drop (max_Iter st) (d_b (resize_arrays dimn st)) = replicate (max_Iter st) (Some 0)"
  using assms by (simp_all add: resize_arrays_def vec_resize_def)

section \<open>The concrete runs\<close>

subsection \<open>The run on H1\<close>

lemma H1_mv: "coo_mv 2 H1 [Some x0, Some x1] = [Some (- x0 + x1), Some x0]"
  by (simp add: coo_mv_def H1_def upt_rec cuCadd_def cuCmul_def)

lemma run1_init: "lanczos_init gigabyte coo_mv H1 2 4 1 = Inr run1_init"
  by (simp add: lanczos_init_def Let_def is_int_def wrap32_int claim_gigabyte blas_defs mem_defs
      replicate_2 replicate_4 replicate_8 H1_mv Complex_zero_im run1_init_def)

lemma run1_recurrence: "recurrence coo_mv H1 2 run1_init = Inr run1_recurrence"
  by (simp add: recurrence_def Let_def blas_defs mem_defs wrap32_int H1_mv Complex_zero_im
      run1_init_def run1_recurrence_def)

lemma run1_extract: "extract_spectrum gigabyte tqli 2 1 run1_recurrence = Inr run1_round"
proof -
  have sorted: "thrust_sort [Some 0, Some (- 1), Some 0, Some 0] = [Some (- 1), Some 0, Some 0, Some 0]"
    using thrust_sort_numbers [of "[0, - 1, 0, 0]"] by simp
  have ker: "kernel_extent 2 (Suc 0) = 1"
    by (simp add: kernel_extent_1)
  show ?thesis
    by (simp add: extract_spectrum_def eigen_matrix_def Let_def tqli_deflated run1_recurrence_def
        run1_round_def mem_defs wrap32_int claim_gigabyte sorted ker)
qed

lemma run1_round: "lanczos_round gigabyte coo_mv tqli H1 2 1 run1_init = Inr run1_round"
  by (simp add: lanczos_round_def run1_recurrence run1_extract ebind_def grow_trigger_def
      del: One_nat_def) (simp add: run1_round_def run1_recurrence_def)






subsection \<open>The runs on H2 and H3\<close>

lemma H2_mv: "coo_mv 2 H2 [Some x0, Some x1] = [Some (- x1), Some (- x0 + x1)]"
  by (simp add: coo_mv_def H2_def upt_rec cuCadd_def cuCmul_def)

lemma H3_mv: "coo_mv (Suc 0) H3 [x0] = [cuCadd (cuCmul (Some 5) x0) (Some 0)]"
  by (simp add: coo_mv_def H3_def upt_rec)

lemma run2_init: "lanczos_init gigabyte coo_mv H2 2 4 2 = Inr run2_init"
  by (simp add: lanczos_init_def Let_def is_int_def wrap32_int claim_gigabyte blas_defs mem_defs
      replicate_2 replicate_4 replicate_8 H2_mv Complex_zero_im run2_init_def)

lemma run2_recurrence: "recurrence coo_mv H2 2 run2_init = Inr run2_recurrence"
  by (simp add: recurrence_def Let_def blas_defs mem_defs wrap32_int H2_mv Complex_zero_im
      sqrt_9 run2_init_def run2_recurrence_def)

lemma run2_extract: "extract_spectrum gigabyte tqli 2 2 run2_recurrence = Inr run2_round"
proof -
  have sorted: "thrust_sort [Some 0, Some 1, Some 0, Some 0] = [Some 0, Some 0, Some 0, Some 1]"
    using thrust_sort_numbers [of "[0, 1, 0, 0]"] by simp
  have ker: "kernel_extent 2 (Suc 0) = 1"
    by (simp add: kernel_extent_1)
  show ?thesis
    by (simp add: extract_spectrum_def eigen_matrix_def Let_def tqli_deflated run2_recurrence_def
        run2_round_def mem_defs wrap32_int claim_gigabyte sorted ker)
qed

lemma run2_round: "lanczos_round gigabyte coo_mv tqli H2 2 2 run2_init = Inr run2_round"
  by (simp add: lanczos_round_def run2_recurrence run2_extract ebind_def grow_trigger_def
      del: One_nat_def) (simp add: run2_round_def run2_recurrence_def)

lemma run2: "lanczos gigabyte coo_mv tqli H2 2 4 2 (1 / 2) = Some (Inr run2_round)"
proof -
  have "unconverged (1 / 2) run2_init"
    by (simp add: unconverged_def run2_init_def)
  moreover have "\<not> unconverged (1 / 2) run2_round"
    by (simp add: unconverged_def run2_round_def run2_recurrence_def)
  moreover have "finish gigabyte 2 2 run2_round = Inr run2_round"
    by (simp add: finish_def h_ordered_def ebind_def claim_gigabyte wrap32_int run2_round_def
        run2_recurrence_def)
  ultimately show ?thesis
    by (simp add: lanczos_def run2_init lanczos_loop_round run2_round lanczos_loop_exit ebind_def)
qed

lemma run3_init: "lanczos_init gigabyte coo_mv H3 1 4 1 = Inr run3_init"
  by (simp add: lanczos_init_def Let_def is_int_def wrap32_int claim_gigabyte blas_defs mem_defs
      replicate_4 H3_mv Complex_zero_im run3_init_def)

lemma run3_recurrence:
  "recurrence coo_mv H3 1 run3_init =
     Inr (run3_round \<lparr> d_diag := [Some 0, Some 0, Some 0, Some 0], gs_Energy := Some 1 \<rparr>)"
  by (simp add: recurrence_def Let_def blas_defs mem_defs wrap32_int H3_mv
      run3_init_def run3_round_def)

lemma run3_round: "lanczos_round gigabyte coo_mv tqli H3 1 1 run3_init = Inr run3_round"
proof -
  have sorted: "thrust_sort [Some 0, Some 0, Some 0, Some 0] = [Some 0, Some 0, Some 0, Some 0]"
    using thrust_sort_numbers [of "[0, 0, 0, 0]"] by simp
  have ker: "kernel_extent (Suc 0) (Suc 0) = 1"
    by (simp add: kernel_extent_1)
  have "extract_spectrum gigabyte tqli 1 1
      (run3_round \<lparr> d_diag := [Some 0, Some 0, Some 0, Some 0], gs_Energy := Some 1 \<rparr>)
      = Inr run3_round"
    by (simp add: extract_spectrum_def eigen_matrix_def Let_def tqli_deflated
        run3_round_def mem_defs wrap32_int claim_gigabyte sorted ker)
  then show ?thesis
    by (simp add: lanczos_round_def run3_recurrence ebind_def grow_trigger_def
      del: One_nat_def) (simp add: run3_round_def)
qed


section \<open>The claims\<close>

text \<open>
  C1 (failing input). On \<open>H2\<close> with \<open>dim = 2\<close>, \<open>max_Iter = 4\<close>, \<open>num_Eig = 2\<close>,
  \<open>conv_req = 1/2\<close> the call ends after one round and prints \<open>0 0\<close>. The diagonal handed to
  the eigensolver in that round is \<open>[0, 1, 0, 0]\<close>, of which \<open>iter + 1 = 2\<close> entries are
  valid; the two smallest eigenvalues of that matrix are 0 and 1. The second zero printed
  comes from an unused slot of the buffer, all of which is sorted.
\<close>

theorem spectrum_takes_unused_slots:
  "map_option (map_sum id (\<lambda>s. (iter s, h_ordered s)))
     (lanczos gigabyte coo_mv tqli H2 2 4 2 (1 / 2)) = Some (Inr (1, [Some 0, Some 0])) \<and>
   map_sum id
     (\<lambda>s. (d_diag s, iter s + 1,
            take 2 (thrust_sort (take (iter s + 1) (tqli (d_diag s) (d_offdia s) (iter s + 1))))))
     (ebind (lanczos_init gigabyte coo_mv H2 2 4 2) (recurrence coo_mv H2 2))
     = Inr ([Some 0, Some 1, Some 0, Some 0], 2, [Some 0, Some 1])"
proof -
  have solver: "tqli [Some 0, Some 1, Some 0, Some 0] [Some 0, Some 0, Some (sqrt 3), Some 0] (Suc 1)
      = [Some 0, Some 1, Some 0, Some 0]"
    by (rule tqli_deflated) simp_all
  have sorted: "thrust_sort [Some 0, Some 1] = [Some 0, Some 1]"
    using thrust_sort_numbers [of "[0, 1]"] by simp
  have "map_sum id
     (\<lambda>s. (d_diag s, iter s + 1,
            take 2 (thrust_sort (take (iter s + 1) (tqli (d_diag s) (d_offdia s) (iter s + 1))))))
     (ebind (lanczos_init gigabyte coo_mv H2 2 4 2) (recurrence coo_mv H2 2))
     = Inr ([Some 0, Some 1, Some 0, Some 0], 2, [Some 0, Some 1])"
    using solver sorted by (simp add: run2_init run2_recurrence ebind_def run2_recurrence_def)
  moreover have "iter run2_round = 1" "h_ordered run2_round = [Some 0, Some 0]"
    by (simp_all add: run2_round_def run2_recurrence_def h_ordered_def)
  ultimately show ?thesis using run2 by simp
qed

text \<open>
  C2 (failing input). In the first round on \<open>H1\<close> the residual left in \<open>v2\<close> is
  \<open>(3, 0) = H v1 + alpha_1 v1 + beta_1 v0\<close>, where the spec asks for
  \<open>H v1 - alpha_1 v1 - beta_1 v0 = (-1, -2)\<close>. The kernel \<open>vecdiff\<close> of the older variant
  subtracts \<open>alpha y - beta z\<close>, so it gives \<open>(1, 0)\<close> on the same data.
\<close>

theorem residual_adds_both_terms:
  "lanczos_init gigabyte coo_mv H1 2 4 1 = Inr run1_init \<and>
   map_sum id
     (\<lambda>s. (v2 s, spec_residual (coo_mv 2 H1 (v1 run1_init)) (d_a s ! 1) (v1 run1_init)
                    (d_b s ! 1) (v0 run1_init)))
     (recurrence coo_mv H1 2 run1_init) = Inr ([Some 3, Some 0], [Some (- 1), Some (- 2)]) \<and>
   vecdiff (coo_mv 2 H1 (v1 run1_init)) (coo_mv 2 H1 (v1 run1_init)) (Some (- 1)) (v1 run1_init)
     (Some 1) (v0 run1_init) 2 = [Some 1, Some 0]"
proof -
  have "v1 run1_init = [Some (- 1), Some 0]" "v0 run1_init = [Some 1, Some 1]"
    by (simp_all add: run1_init_def)
  moreover have "v2 run1_recurrence = [Some 3, Some 0]" "d_a run1_recurrence ! 1 = Some (- 1)"
    "d_b run1_recurrence ! 1 = Some 1"
    by (simp_all add: run1_recurrence_def)
  ultimately show ?thesis
    by (simp add: run1_init run1_recurrence H1_mv spec_residual_def vecdiff_def cuCsub_def
        cuCmul_def upt_rec del: One_nat_def)
qed

text \<open>
  C3 (failing input). In the first round on \<open>H1\<close> the residual is \<open>(3, 0)\<close>, of Euclidean norm
  3, and the coefficient stored in \<open>d_b[2]\<close> is the square root of 3.
\<close>

theorem offdiagonal_is_root_of_norm:
  "lanczos_init gigabyte coo_mv H1 2 4 1 = Inr run1_init \<and>
   map_sum id (\<lambda>s. (iter s, d_b s ! (iter s + 1), Dznrm2 2 (v2 s)))
     (recurrence coo_mv H1 2 run1_init) = Inr (1, Some (complex_of_real (sqrt 3)), Some 3) \<and>
   complex_of_real (sqrt 3) \<noteq> 3"
proof -
  have "sqrt 3 \<noteq> (3::real)"
  proof
    assume "sqrt 3 = (3::real)"
    then have "(sqrt 3)\<^sup>2 = (3::real)\<^sup>2" by (rule arg_cong)
    then show False by simp
  qed
  then have "complex_of_real (sqrt 3) \<noteq> 3"
    by (metis of_real_eq_iff of_real_numeral)
  moreover have "Dznrm2 2 [Some 3, Some 0] = Some 3"
    by (simp add: Dznrm2_def sqrt_double_def sqrt_9)
  moreover have "v2 run1_recurrence = [Some 3, Some 0]" "iter run1_recurrence = 1"
    "d_b run1_recurrence ! 2 = Some (complex_of_real (sqrt 3))"
    by (simp_all add: run1_recurrence_def)
  ultimately show ?thesis
    by (simp add: run1_init run1_recurrence del: One_nat_def)
qed






text \<open>
  C6 (failing input). On \<open>H1\<close> with \<open>dim = 2\<close>, \<open>max_Iter = 2\<close>, \<open>num_Eig = 1\<close>,
  \<open>conv_req = 1/2\<close> the first round is the one whose \<open>iter\<close> meets the test
  \<^verbatim>\<open>iter == max_Iter - 1\<close> of the growth. Before that test it has written the new
  coefficient \<open>d_b[2]\<close>, the square root of 3, outside the vector of two elements, where the
  run of the model ends; the growth that follows in the program keeps the two elements of
  \<open>d_b\<close> and puts zero at index 2, so that coefficient is not among what is kept.
\<close>

theorem growth_follows_overflow:
  "map_sum id
     (\<lambda>s. (max_Iter s, d_b s, grow_trigger (s\<lparr>iter := iter s + 1\<rparr>), d_b (resize_arrays 2 s)))
     (lanczos_init gigabyte coo_mv H1 2 2 1)
     = Inr (2, [Some 0, Some 1], True, [Some 0, Some 1, Some 0, Some 0]) \<and>
   lanczos gigabyte coo_mv tqli H1 2 2 1 (1 / 2) = Some (Inl OutOfBounds) \<and>
   map_sum id (\<lambda>s. (iter s, d_b s ! 2)) (recurrence coo_mv H1 2 run1_init)
     = Inr (1, Some (complex_of_real (sqrt 3)))"
proof -
  obtain s0 where s0: "lanczos_init gigabyte coo_mv H1 2 2 1 = Inr s0"
    and f: "max_Iter s0 = 2" "d_b s0 = [Some 0, Some 1]" "iter s0 = 0"
      "gs_Energy s0 = Some 1" "eigtemp s0 = Some 0"
    by (simp add: lanczos_init_def Let_def is_int_def wrap32_int claim_gigabyte blas_defs mem_defs
      replicate_2 replicate_4 H1_mv Complex_zero_im)
  have "lanczos_round gigabyte coo_mv tqli H1 2 1 s0 = Inl OutOfBounds"
    by (rule growth_round_overflows) (simp_all add: f)
  moreover have "unconverged (1 / 2) s0"
    by (simp add: unconverged_def f)
  ultimately have "lanczos gigabyte coo_mv tqli H1 2 2 1 (1 / 2) = Some (Inl OutOfBounds)"
    by (simp add: lanczos_def s0 lanczos_loop_round ebind_def del: One_nat_def)
  moreover have "d_b (resize_arrays 2 s0) = [Some 0, Some 1, Some 0, Some 0]"
    by (simp add: resize_arrays_def vec_resize_def f replicate_2)
  moreover have "grow_trigger (s0\<lparr>iter := iter s0 + 1\<rparr>)"
    by (simp add: grow_trigger_def f)
  moreover have "iter run1_recurrence = 1"
    "d_b run1_recurrence ! 2 = Some (complex_of_real (sqrt 3))"
    by (simp_all add: run1_recurrence_def)
  ultimately show ?thesis
    by (simp add: s0 f run1_recurrence del: One_nat_def)
qed




text \<open>
  C8. In every round whose accesses are inside the vectors, the reciprocal of the new
  off-diagonal coefficient only scales what is added to the scratch vector \<open>y\<close>; the
  residual \<open>v2\<close> itself, not divided by anything, becomes the next Lanczos vector \<open>v1\<close>,
  the old \<open>v1\<close> becomes \<open>v0\<close>, and what is copied into the basis store is the old
  \<open>v0\<close>, not the residual. Nothing reads \<open>y\<close>: a round started with another \<open>y\<close> and
  another reciprocal fails or succeeds alike and gives the same state but for \<open>y\<close>.
\<close>

theorem normalisation_only_reaches_scratch:
  assumes "recurrence_fits dimn st"
  shows "(\<exists>st'. recurrence mv A dimn st = Inr st' \<and> iter st' = iter st + 1 \<and>
           d_a st' = (d_a st)[iter st + 1 := Zdotc dimn (v1 st) (mv dimn A (v1 st))] \<and>
           d_b st' = (d_b st)[iter st + 2 :=
             make_cuDoubleComplex (sqrt_double (Dznrm2 dimn (v2 st'))) (Some 0)] \<and>
           y_dummy st' =
             Zaxpy_scratch dimn (recip (cuCreal (d_b st' ! (iter st' + 1)))) (v2 st') (y_dummy st) \<and>
           v2 st' = Zaxpy dimn (d_a st' ! iter st')
                      (Zaxpy dimn (cuCdiv (d_b st ! iter st') (d_a st' ! iter st')) (v0 st)
                         (take dimn (v1 st)))
                      (mv dimn A (v1 st)) \<and>
           v1 st' = take dimn (v2 st') \<and>
           v0 st' = take dimn (v1 st) \<and>
           d_lanczvec st' =
             take (nat (wrap32 (int dimn * int (iter st)))) (d_lanczvec st) @ take dimn (v0 st)
             @ drop (nat (wrap32 (int dimn * int (iter st))) + length (take dimn (v0 st)))
                 (d_lanczvec st)) \<and>
         lanczos_round mem mv tq A dimn k (st\<lparr>gamma := g, y_dummy := yy\<rparr>) =
           map_sum id (\<lambda>s. s\<lparr>y_dummy := Zaxpy_scratch dimn (gamma s) (v2 s) yy\<rparr>)
             (lanczos_round mem mv tq A dimn k st)"
proof -
  obtain st' where st': "recurrence mv A dimn st = Inr st'"
    using assms recurrence_succeeds by blast
  show ?thesis
    using recurrence_fields [OF st'] st' by (simp add: round_scratch_independent)
qed

text \<open>
  The theorem on the first round on \<open>H1\<close>: the vector kept as \<open>v1\<close> is the residual
  \<open>(3, 0)\<close>, of norm 3, and the vector stored in the basis is the start vector \<open>(1, 1)\<close>.
\<close>

theorem normalisation_only_reaches_scratch_witness:
  "recurrence_fits 2 run1_init \<and>
   map_sum id (\<lambda>s. (v0 s, v1 s, v2 s, take 2 (d_lanczvec s))) (recurrence coo_mv H1 2 run1_init)
     = Inr ([Some (- 1), Some 0], [Some 3, Some 0], [Some 3, Some 0], [Some 1, Some 1]) \<and>
   Dznrm2 2 [Some 3, Some 0] = Some 3"
proof -
  have fits: "recurrence_fits 2 run1_init"
    by (simp add: recurrence_fits_def run1_init_def wrap32_int)
  obtain st' where st': "recurrence coo_mv H1 2 run1_init = Inr st'"
    and "v1 st' = take 2 (v2 st')" and "v0 st' = take 2 (v1 run1_init)"
    using normalisation_only_reaches_scratch [OF fits, of coo_mv H1] by blast
  moreover from st' have "st' = run1_recurrence"
    by (simp add: run1_recurrence)
  moreover have "v2 run1_recurrence = [Some 3, Some 0]"
    "take 2 (d_lanczvec run1_recurrence) = [Some 1, Some 1]"
    "v1 run1_init = [Some (- 1), Some 0]"
    by (simp_all add: run1_recurrence_def run1_init_def)
  moreover have "Dznrm2 2 [Some 3, Some 0] = Some 3"
    by (simp add: Dznrm2_def sqrt_double_def sqrt_9)
  ultimately show ?thesis using fits by simp
qed

text \<open>
  On \<open>H1\<close> the first round copies the start vector \<open>(1, 1)\<close> into the basis store while its
  residual is \<open>(3, 0)\<close>; the run goes on, and the second round stores \<open>(-1, 0)\<close>, a vector
  of norm 1.
\<close>

theorem stored_vector_counterexample:
  "map_sum id (\<lambda>s. (take 2 (d_lanczvec s), v2 s)) (recurrence coo_mv H1 2 run1_init)
     = Inr ([Some 1, Some 1], [Some 3, Some 0]) \<and>
   lanczos_round gigabyte coo_mv tqli H1 2 1 run1_init = Inr run1_round \<and>
   unconverged (1 / 2) run1_round \<and>
   map_sum id (\<lambda>s. (take 2 (drop 2 (d_lanczvec s)), Dznrm2 2 (take 2 (drop 2 (d_lanczvec s)))))
     (recurrence coo_mv H1 2 run1_round) = Inr ([Some (- 1), Some 0], Some 1)"
proof -
  have "unconverged (1 / 2) run1_round"
    by (simp add: unconverged_def run1_round_def run1_recurrence_def)
  moreover have "map_sum id d_lanczvec (recurrence coo_mv H1 2 run1_round)
     = Inr [Some 1, Some 1, Some (- 1), Some 0, Some 0, Some 0, Some 0, Some 0]"
    by (simp add: recurrence_def Let_def blas_defs mem_defs wrap32_int H1_mv Complex_zero_im
      run1_recurrence_def run1_round_def)
  then have "map_sum id (\<lambda>s. (take 2 (drop 2 (d_lanczvec s)),
        Dznrm2 2 (take 2 (drop 2 (d_lanczvec s))))) (recurrence coo_mv H1 2 run1_round)
      = Inr ([Some (- 1), Some 0], Some 1)"
    by (cases "recurrence coo_mv H1 2 run1_round") (simp_all add: Dznrm2_def sqrt_double_def)
  moreover have "take 2 (d_lanczvec run1_recurrence) = [Some 1, Some 1]"
    "v2 run1_recurrence = [Some 3, Some 0]"
    by (simp_all add: run1_recurrence_def)
  ultimately show ?thesis using run1_round by (simp add: run1_recurrence)
qed

text \<open>
  C9. \<open>d_diag[0]\<close> is never assigned from \<open>alpha_0\<close>: a round writes \<open>d_diag\<close> only at the
  incremented \<open>iter\<close>, which is at least 1. In the first round the diagonal handed to the
  eigensolver therefore is zero but for its entry 1, and its first entry is 0 whatever the
  operator.
\<close>

theorem first_round_diagonal_starts_with_zero:
  assumes "lanczos_init mem mv A dimn max_It k = Inr s0" and "recurrence mv A dimn s0 = Inr s1"
    and "recurrence mv' A' dimn' st = Inr st'"
  shows "iter s1 = 1 \<and> d_diag s1 ! 0 = Some 0 \<and>
         d_diag s1 = (replicate max_It (Some 0))[1 := cuCreal (d_a s1 ! 1)] \<and>
         1 \<le> iter st' \<and> d_diag st' = (d_diag st)[iter st' := cuCreal (d_a st' ! iter st')] \<and>
         d_diag st' ! 0 = d_diag st ! 0"
proof -
  have "iter s1 = 1" and "d_diag s1 = (replicate max_It (Some 0))[1 := cuCreal (d_a s1 ! 1)]"
    using recurrence_fields [OF assms(2)] lanczos_init_fields [OF assms(1)] by simp_all
  moreover from this recurrence_bounds(3) [OF assms(2)] lanczos_init_fields [OF assms(1)]
  have "d_diag s1 ! 0 = Some 0" by simp
  moreover have "1 \<le> iter st'"
    and "d_diag st' = (d_diag st)[iter st' := cuCreal (d_a st' ! iter st')]"
    using recurrence_fields [OF assms(3)] by simp_all
  moreover from this have "d_diag st' ! 0 = d_diag st ! 0" by simp
  ultimately show ?thesis by simp
qed

text \<open>The theorem on the first round on \<open>H1\<close>.\<close>

theorem first_round_diagonal_starts_with_zero_witness:
  "lanczos_init gigabyte coo_mv H1 2 4 1 = Inr run1_init \<and>
   recurrence coo_mv H1 2 run1_init = Inr run1_recurrence \<and>
   iter run1_recurrence = 1 \<and> d_diag run1_recurrence ! 0 = Some 0"
  using first_round_diagonal_starts_with_zero [OF run1_init run1_recurrence run1_recurrence]
    run1_init run1_recurrence
  by simp

text \<open>
  The run on \<open>H1\<close> goes on after its first round, and in the second round the diagonal
  handed to the eigensolver starts with -1: sorting the whole of \<open>d_diag\<close> in the first
  round has moved the entry of index 1 to the front.
\<close>

theorem first_diagonal_counterexample:
  "lanczos_init gigabyte coo_mv H1 2 4 1 = Inr run1_init \<and>
   lanczos_round gigabyte coo_mv tqli H1 2 1 run1_init = Inr run1_round \<and>
   unconverged (1 / 2) run1_round \<and>
   map_sum id (\<lambda>s. (iter s, d_diag s)) (recurrence coo_mv H1 2 run1_round)
     = Inr (2, [Some (- 1), Some 0, Some (- 9), Some 0])"
proof -
  have "unconverged (1 / 2) run1_round"
    by (simp add: unconverged_def run1_round_def run1_recurrence_def)
  moreover have "map_sum id (\<lambda>s. (iter s, d_diag s)) (recurrence coo_mv H1 2 run1_round)
     = Inr (2, [Some (- 1), Some 0, Some (- 9), Some 0])"
    by (simp add: recurrence_def Let_def blas_defs mem_defs wrap32_int H1_mv Complex_zero_im
      run1_recurrence_def run1_round_def)
  ultimately show ?thesis using run1_init run1_round by simp
qed




end
